theory Spec2Isabelle
  imports Main
begin

section \<open>Data model\<close>

text \<open>
  The controller class \<open>IPTables\<close> of \<open>src/iptables.ts\<close> keeps two key-value stores
  (host rules with a time-to-live, interface rules without) and talks to the external
  rule-table tool through \<open>child_process.exec\<close>. The model threads one record through
  every operation: the options, the two stores, the clock of the process, the commands
  handed to \<open>exec\<close> in the order of issue, and the notifications the controller emitted.
  An operation runs at one value of the clock; time passes between operations.
\<close>

record Options =
  chain :: string
  stdTTL :: "nat option"
  iptables :: "string option"
  family :: "int option"

text \<open>
  \<open>ExecError\<close> is the error object \<open>exec\<close> passes to its callback when the command fails
  (the specification's \<open>ExternalCommandError\<close>); \<open>UnknownAddressFamily\<close> is
  \<open>new Error('Unknown address family specified')\<close> (the specification's
  \<open>ConfigurationError\<close>).
\<close>

datatype error = ExecError | UnknownAddressFamily

datatype notification = Error_event | Expired_event string

subsection \<open>The expiring key-value store\<close>

text \<open>
  Modelled from the spec: the class \<open>MemoryCache\<close> of the package \<open>@gibme/cache/memory\<close>,
  which \<open>src/iptables.ts\<close> imports and whose code is not under \<open>src/\<close>. Sections 3 and 4.1
  of the specification give its behaviour: keys are unique, \<open>set\<close> inserts or overwrites and
  resets the expiry to now + TTL (no expiry when the TTL is 0), \<open>has\<close>/\<open>includes\<close> is true iff
  the key is present and not expired, \<open>delete\<close> removes the entry if present, \<open>list\<close> is a
  snapshot of the pairs in insertion order without the expired ones, \<open>clear\<close> removes all
  entries, and the sweep removes each entry whose expiry has passed and emits \<open>expired\<close>
  with its key. An entry is a key, a value and an optional expiry time.
\<close>

record MemoryCache =
  entries :: "(string \<times> string \<times> nat option) list"
  cache_stdTTL :: nat
  checkperiod :: nat

text \<open>Modelled from the spec: a new store, empty, with its TTL and its sweep period.\<close>

definition new_MemoryCache :: "nat \<Rightarrow> nat \<Rightarrow> MemoryCache" where
  "new_MemoryCache ttl period = \<lparr>entries = [], cache_stdTTL = ttl, checkperiod = period\<rparr>"

text \<open>Modelled from the spec: an entry is expired when its expiry time has passed; an entry
  without expiry time never is.\<close>

definition entry_expired :: "nat \<Rightarrow> nat option \<Rightarrow> bool" where
  "entry_expired t e = (case e of None \<Rightarrow> False | Some d \<Rightarrow> d < t)"

text \<open>Modelled from the spec: \<open>has\<close>/\<open>includes\<close>, true iff the key is present and not expired.\<close>

definition cache_includes :: "nat \<Rightarrow> MemoryCache \<Rightarrow> string \<Rightarrow> bool" where
  "cache_includes t c k =
     (case map_of (entries c) k of None \<Rightarrow> False | Some (v, e) \<Rightarrow> \<not> entry_expired t e)"

text \<open>Modelled from the spec: \<open>set\<close> inserts or overwrites and resets the expiry to
  now + TTL, or to none when the TTL is 0. The entry of a key that is included is
  overwritten where it stands. A key that is not included, also one whose expired entry
  is not yet swept, is logically absent: its stale entry goes and the new entry is a fresh
  insertion at the end of the enumeration.\<close>

fun upsert :: "string \<Rightarrow> string \<times> nat option \<Rightarrow> (string \<times> string \<times> nat option) list
    \<Rightarrow> (string \<times> string \<times> nat option) list" where
  "upsert k ve [] = [(k, ve)]"
| "upsert k ve (p # ps) = (if fst p = k then (k, ve) # ps else p # upsert k ve ps)"

definition cache_set :: "nat \<Rightarrow> MemoryCache \<Rightarrow> string \<Rightarrow> string \<Rightarrow> MemoryCache" where
  "cache_set t c k v =
     (let ve = (v, if cache_stdTTL c = 0 then None else Some (t + cache_stdTTL c)) in
      if cache_includes t c k then c\<lparr>entries := upsert k ve (entries c)\<rparr>
      else c\<lparr>entries := filter (\<lambda>p. fst p \<noteq> k) (entries c) @ [(k, ve)]\<rparr>)"

text \<open>Modelled from the spec: \<open>delete\<close> removes the entry if present and is no error if
  absent.\<close>

definition cache_del :: "MemoryCache \<Rightarrow> string \<Rightarrow> MemoryCache" where
  "cache_del c k = c\<lparr>entries := filter (\<lambda>p. fst p \<noteq> k) (entries c)\<rparr>"

text \<open>Modelled from the spec: \<open>list\<close>, the pairs of key and value in insertion order, without
  the entries that are expired and not yet swept.\<close>

definition cache_list :: "nat \<Rightarrow> MemoryCache \<Rightarrow> (string \<times> string) list" where
  "cache_list t c =
     map (\<lambda>p. (fst p, fst (snd p))) (filter (\<lambda>p. \<not> entry_expired t (snd (snd p))) (entries c))"

text \<open>Modelled from the spec: \<open>clear\<close> removes all entries.\<close>

definition cache_clear :: "MemoryCache \<Rightarrow> MemoryCache" where
  "cache_clear c = c\<lparr>entries := []\<rparr>"

text \<open>Modelled from the spec: the keys the next sweep removes, those of the entries whose
  expiry has passed.\<close>

definition cache_expired_keys :: "nat \<Rightarrow> MemoryCache \<Rightarrow> string list" where
  "cache_expired_keys t c =
     map fst (filter (\<lambda>p. entry_expired t (snd (snd p))) (entries c))"

text \<open>Modelled from the spec: the expiry time stored with a key, and the invariant of the
  store that keys are unique.\<close>

definition cache_expiry :: "MemoryCache \<Rightarrow> string \<Rightarrow> nat option" where
  "cache_expiry c k = (case map_of (entries c) k of None \<Rightarrow> None | Some (v, e) \<Rightarrow> e)"

definition cache_ok :: "MemoryCache \<Rightarrow> bool" where
  "cache_ok c = distinct (map fst (entries c))"

subsection \<open>The controller\<close>

record IPTables =
  options :: Options
  hostStorage :: MemoryCache
  ifaceStorage :: MemoryCache
  now :: nat
  execLog :: "string list"
  emitted :: "notification list"

text \<open>
  The environment decides whether a command handed to \<open>exec\<close> fails: it sees the commands
  issued before and the command itself, and answers \<open>True\<close> for a failure.
\<close>

type_synonym exec_env = "string list \<Rightarrow> string \<Rightarrow> bool"

definition exec :: "exec_env \<Rightarrow> string \<Rightarrow> IPTables \<Rightarrow> bool \<times> IPTables" where
  "exec env cmd s = (env (execLog s) cmd, s\<lparr>execLog := execLog s @ [cmd]\<rparr>)"

text \<open>A template literal renders an undefined value as the text \<open>undefined\<close>.\<close>

definition opt_iptables :: "Options \<Rightarrow> string" where
  "opt_iptables opts = (case iptables opts of None \<Rightarrow> ''undefined'' | Some p \<Rightarrow> p)"

definition flush_cmd :: "Options \<Rightarrow> string" where
  "flush_cmd opts = opt_iptables opts @ '' -F '' @ chain opts"

definition add_cmd :: "Options \<Rightarrow> string \<Rightarrow> string \<Rightarrow> string" where
  "add_cmd opts host jumpTarget =
     opt_iptables opts @ '' -A '' @ chain opts @ '' -s '' @ host @ '' -j '' @ jumpTarget"

definition addInterface_cmd :: "Options \<Rightarrow> string \<Rightarrow> string \<Rightarrow> string" where
  "addInterface_cmd opts iface jumpTarget =
     opt_iptables opts @ '' -A '' @ chain opts @ '' -i '' @ iface @ '' -j '' @ jumpTarget"

text \<open>
  The constructor. \<open>which_sync\<close> is \<open>which.sync(_, {nothrow: true})\<close> and \<open>resolve\<close> is
  \<open>path.resolve\<close>, both of the environment; \<open>t0\<close> is the clock at construction.
\<close>

definition or_else :: "string option \<Rightarrow> string \<Rightarrow> string" where
  "or_else found dflt = (case found of None \<Rightarrow> dflt | Some p \<Rightarrow> (if p = [] then dflt else p))"

definition constructor ::
    "(string \<Rightarrow> string option) \<Rightarrow> (string \<Rightarrow> string) \<Rightarrow> nat \<Rightarrow> Options \<Rightarrow> error + IPTables" where
  "constructor which_sync resolve t0 opts =
     (let ttl = (case stdTTL opts of None \<Rightarrow> 300 | Some t \<Rightarrow> t);
          fam = (case family opts of None \<Rightarrow> 4 | Some f \<Rightarrow> f);
          build = (\<lambda>path.
            Inr \<lparr>options = opts\<lparr>stdTTL := Some ttl, iptables := Some (resolve path),
                                 family := Some fam\<rparr>,
                 hostStorage = new_MemoryCache ttl ((ttl + 9) div 10),
                 ifaceStorage = new_MemoryCache 0 0,
                 now = t0, execLog = [], emitted = []\<rparr>)
      in if fam = 4 then
           build (case iptables opts of
                    None \<Rightarrow> or_else (which_sync ''iptables'') ''/usr/sbin/iptables''
                  | Some p \<Rightarrow> p)
         else if fam = 6 then
           build (case iptables opts of
                    None \<Rightarrow> or_else (which_sync ''ip6tables'') ''/usr/sbin/ip6tables''
                  | Some p \<Rightarrow> p)
         else Inl UnknownAddressFamily)"

text \<open>\<open>flush\<close>, \<open>_add\<close> and \<open>_addInterface\<close>: one \<open>exec\<close> each, rejected when the command
  fails and \<open>nothrow\<close> is false.\<close>

definition flush :: "exec_env \<Rightarrow> bool \<Rightarrow> IPTables \<Rightarrow> (error + unit) \<times> IPTables" where
  "flush env nothrow s =
     (case exec env (flush_cmd (options s)) s of
        (failed, s') \<Rightarrow> (if failed \<and> \<not> nothrow then Inl ExecError else Inr (), s'))"

definition u_add ::
    "exec_env \<Rightarrow> string \<Rightarrow> string \<Rightarrow> bool \<Rightarrow> IPTables \<Rightarrow> (error + unit) \<times> IPTables" where
  "u_add env host jumpTarget nothrow s =
     (case exec env (add_cmd (options s) host jumpTarget) s of
        (failed, s') \<Rightarrow> (if failed \<and> \<not> nothrow then Inl ExecError else Inr (), s'))"

definition u_addInterface ::
    "exec_env \<Rightarrow> string \<Rightarrow> string \<Rightarrow> bool \<Rightarrow> IPTables \<Rightarrow> (error + unit) \<times> IPTables" where
  "u_addInterface env iface jumpTarget nothrow s =
     (case exec env (addInterface_cmd (options s) iface jumpTarget) s of
        (failed, s') \<Rightarrow> (if failed \<and> \<not> nothrow then Inl ExecError else Inr (), s'))"

definition default_target :: "string option \<Rightarrow> string" where
  "default_target jumpTarget = (case jumpTarget of None \<Rightarrow> ''ACCEPT'' | Some t \<Rightarrow> t)"

definition add ::
    "exec_env \<Rightarrow> string \<Rightarrow> string option \<Rightarrow> IPTables \<Rightarrow> (error + bool) \<times> IPTables" where
  "add env host jumpTarget s =
     (let jt = default_target jumpTarget in
      if \<not> cache_includes (now s) (hostStorage s) host then
        (case u_add env host jt False s of
           (Inl e, s') \<Rightarrow> (Inl e, s')
         | (Inr u, s') \<Rightarrow>
             (Inr True, s'\<lparr>hostStorage := cache_set (now s') (hostStorage s') host jt\<rparr>))
      else (Inr True, s\<lparr>hostStorage := cache_set (now s) (hostStorage s) host jt\<rparr>))"

definition addInterface ::
    "exec_env \<Rightarrow> string \<Rightarrow> string option \<Rightarrow> IPTables \<Rightarrow> (error + bool) \<times> IPTables" where
  "addInterface env iface jumpTarget s =
     (let jt = default_target jumpTarget in
      if \<not> cache_includes (now s) (ifaceStorage s) iface then
        (case u_addInterface env iface jt False s of
           (Inl e, s') \<Rightarrow> (Inl e, s')
         | (Inr u, s') \<Rightarrow>
             (Inr True, s'\<lparr>ifaceStorage := cache_set (now s') (ifaceStorage s') iface jt\<rparr>))
      else (Inr True, s\<lparr>ifaceStorage := cache_set (now s) (ifaceStorage s) iface jt\<rparr>))"

text \<open>
  \<open>rebuild\<close>. A promise is modelled by its outcome: \<open>_add\<close> hands its command to \<open>exec\<close>
  when it is called, so the two loops issue the commands in enumeration order, whatever
  the order of completion; \<open>Promise.all\<close> is rejected when one of them is rejected. Every
  rejection here carries the error of \<open>exec\<close>, so the order of completion does not show
  in the result.
\<close>

fun push_adds :: "exec_env \<Rightarrow> (string \<times> string) list \<Rightarrow> (error + unit) list \<times> IPTables
    \<Rightarrow> (error + unit) list \<times> IPTables" where
  "push_adds env [] acc = acc"
| "push_adds env (p # rest) acc =
     (case u_add env (fst p) (snd p) False (snd acc) of
        (r, s') \<Rightarrow> push_adds env rest (fst acc @ [r], s'))"

fun push_addInterfaces :: "exec_env \<Rightarrow> (string \<times> string) list
    \<Rightarrow> (error + unit) list \<times> IPTables \<Rightarrow> (error + unit) list \<times> IPTables" where
  "push_addInterfaces env [] acc = acc"
| "push_addInterfaces env (p # rest) acc =
     (case u_addInterface env (fst p) (snd p) False (snd acc) of
        (r, s') \<Rightarrow> push_addInterfaces env rest (fst acc @ [r], s'))"

fun Promise_all :: "(error + unit) list \<Rightarrow> error + unit" where
  "Promise_all [] = Inr ()"
| "Promise_all (Inl e # ps) = Inl e"
| "Promise_all (Inr u # ps) = Promise_all ps"

definition rebuild :: "exec_env \<Rightarrow> IPTables \<Rightarrow> (error + bool) \<times> IPTables" where
  "rebuild env s =
     (case flush env False s of
        (Inl e, s1) \<Rightarrow> (Inr False, s1)
      | (Inr u, s1) \<Rightarrow>
          (case push_adds env (cache_list (now s1) (hostStorage s1)) ([], s1) of
             (ps, s2) \<Rightarrow>
               (case push_addInterfaces env (cache_list (now s2) (ifaceStorage s2)) (ps, s2) of
                  (ps', s3) \<Rightarrow>
                    (case Promise_all ps' of
                       Inl e \<Rightarrow> (Inl e, s3)
                     | Inr u' \<Rightarrow> (Inr True, s3)))))"

definition delete :: "exec_env \<Rightarrow> string \<Rightarrow> IPTables \<Rightarrow> (error + bool) \<times> IPTables" where
  "delete env host s =
     (if \<not> cache_includes (now s) (hostStorage s) host then (Inr False, s)
      else rebuild env (s\<lparr>hostStorage := cache_del (hostStorage s) host\<rparr>))"

definition deleteInterface :: "exec_env \<Rightarrow> string \<Rightarrow> IPTables \<Rightarrow> (error + bool) \<times> IPTables" where
  "deleteInterface env iface s =
     (if \<not> cache_includes (now s) (ifaceStorage s) iface then (Inr False, s)
      else rebuild env (s\<lparr>ifaceStorage := cache_del (ifaceStorage s) iface\<rparr>))"


definition keepAlive :: "exec_env \<Rightarrow> string \<Rightarrow> IPTables \<Rightarrow> (error + unit) \<times> IPTables" where
  "keepAlive env host s =
     (case add env host None s of
        (Inl e, s') \<Rightarrow> (Inl e, s')
      | (Inr b, s') \<Rightarrow> (Inr (), s'))"

text \<open>
  The listeners the constructor registers on the host store: \<open>error\<close> is emitted again by
  the controller, \<open>expired\<close> calls \<open>delete\<close> with the key and drops its result.
\<close>

fun hostStorage_on :: "exec_env \<Rightarrow> notification \<Rightarrow> IPTables \<Rightarrow> IPTables" where
  "hostStorage_on env Error_event s = s\<lparr>emitted := emitted s @ [Error_event]\<rparr>"
| "hostStorage_on env (Expired_event key) s = snd (delete env key s)"

text \<open>
  Modelled from the spec: the background sweep of the host store (code of
  \<open>@gibme/cache/memory\<close>, not under \<open>src/\<close>). For each entry whose expiry has passed it removes
  the entry and emits \<open>expired\<close> with the key, which runs the listener above.
\<close>

fun sweep_keys :: "exec_env \<Rightarrow> string list \<Rightarrow> IPTables \<Rightarrow> IPTables" where
  "sweep_keys env [] s = s"
| "sweep_keys env (k # ks) s =
     sweep_keys env ks
       (hostStorage_on env (Expired_event k) (s\<lparr>hostStorage := cache_del (hostStorage s) k\<rparr>))"

definition sweep :: "exec_env \<Rightarrow> IPTables \<Rightarrow> IPTables" where
  "sweep env s = sweep_keys env (cache_expired_keys (now s) (hostStorage s)) s"

definition advance :: "nat \<Rightarrow> IPTables \<Rightarrow> IPTables" where
  "advance d s = s\<lparr>now := now s + d\<rparr>"

section \<open>Notions used to state the results\<close>

text \<open>
  \<open>rejected\<close> is the outcome of a promise whose command failed or not; \<open>outcomes\<close> asks the
  environment about a sequence of commands issued one after the other; \<open>host_appends\<close> and
  \<open>iface_appends\<close> render the enumeration of each store as append commands.
\<close>

definition rejected :: "bool \<Rightarrow> error + unit" where
  "rejected failed = (if failed then Inl ExecError else Inr ())"

fun outcomes :: "exec_env \<Rightarrow> string list \<Rightarrow> string list \<Rightarrow> bool list" where
  "outcomes env lg [] = []"
| "outcomes env lg (c # cs) = env lg c # outcomes env (lg @ [c]) cs"

definition host_appends :: "IPTables \<Rightarrow> string list" where
  "host_appends s =
     map (\<lambda>p. add_cmd (options s) (fst p) (snd p)) (cache_list (now s) (hostStorage s))"

definition iface_appends :: "IPTables \<Rightarrow> string list" where
  "iface_appends s =
     map (\<lambda>p. addInterface_cmd (options s) (fst p) (snd p)) (cache_list (now s) (ifaceStorage s))"

subsection \<open>A concrete run\<close>

text \<open>
  \<open>fresh\<close> is the controller constructed for the chain \<open>INPUT\<close> with every option left out,
  on a machine where \<open>which\<close> finds no binary; \<open>demo\<close> is the state after
  \<open>add('8.8.8.8', 'DROP')\<close>, \<open>add('1.1.1.1')\<close> and \<open>addInterface('eth2', 'DROP')\<close> at time 0.
  \<open>all_succeed\<close> is the environment in which no command fails, \<open>nth_fails n\<close> the one in
  which exactly the command issued after \<open>n\<close> others fails.
\<close>

definition all_succeed :: exec_env where
  "all_succeed lg cmd = False"

definition nth_fails :: "nat \<Rightarrow> exec_env" where
  "nth_fails n lg cmd = (length lg = n)"

definition demo_options :: Options where
  "demo_options = \<lparr>chain = ''INPUT'', stdTTL = None, iptables = None, family = None\<rparr>"

definition fresh :: IPTables where
  "fresh =
     \<lparr>options = \<lparr>chain = ''INPUT'', stdTTL = Some 300, iptables = Some ''/usr/sbin/iptables'',
                  family = Some 4\<rparr>,
      hostStorage = \<lparr>entries = [], cache_stdTTL = 300, checkperiod = 30\<rparr>,
      ifaceStorage = \<lparr>entries = [], cache_stdTTL = 0, checkperiod = 0\<rparr>,
      now = 0, execLog = [], emitted = []\<rparr>"

definition demo :: IPTables where
  "demo =
     \<lparr>options = \<lparr>chain = ''INPUT'', stdTTL = Some 300, iptables = Some ''/usr/sbin/iptables'',
                  family = Some 4\<rparr>,
      hostStorage = \<lparr>entries = [(''8.8.8.8'', ''DROP'', Some 300),
                                 (''1.1.1.1'', ''ACCEPT'', Some 300)],
                     cache_stdTTL = 300, checkperiod = 30\<rparr>,
      ifaceStorage = \<lparr>entries = [(''eth2'', ''DROP'', None)], cache_stdTTL = 0,
                      checkperiod = 0\<rparr>,
      now = 0,
      execLog = [''/usr/sbin/iptables -A INPUT -s 8.8.8.8 -j DROP'',
                 ''/usr/sbin/iptables -A INPUT -s 1.1.1.1 -j ACCEPT'',
                 ''/usr/sbin/iptables -A INPUT -i eth2 -j DROP''],
      emitted = []\<rparr>"

section \<open>Basic facts\<close>

subsection \<open>Commands and promises\<close>

lemma flush_eq:
  "flush env nothrow s =
     (if env (execLog s) (flush_cmd (options s)) \<and> \<not> nothrow then Inl ExecError else Inr (),
      s\<lparr>execLog := execLog s @ [flush_cmd (options s)]\<rparr>)"
  by (simp add: flush_def exec_def)

lemma u_add_eq:
  "u_add env host jt False s =
     (rejected (env (execLog s) (add_cmd (options s) host jt)),
      s\<lparr>execLog := execLog s @ [add_cmd (options s) host jt]\<rparr>)"
  by (simp add: u_add_def exec_def rejected_def)

lemma u_addInterface_eq:
  "u_addInterface env iface jt False s =
     (rejected (env (execLog s) (addInterface_cmd (options s) iface jt)),
      s\<lparr>execLog := execLog s @ [addInterface_cmd (options s) iface jt]\<rparr>)"
  by (simp add: u_addInterface_def exec_def rejected_def)

lemma push_adds_eq:
  "push_adds env xs (ps, s) =
     (ps @ map rejected (outcomes env (execLog s) (map (\<lambda>p. add_cmd (options s) (fst p) (snd p)) xs)),
      s\<lparr>execLog := execLog s @ map (\<lambda>p. add_cmd (options s) (fst p) (snd p)) xs\<rparr>)"
proof (induction xs arbitrary: ps s)
  case Nil
  show ?case by simp
next
  case (Cons x xs)
  show ?case by (simp add: u_add_eq Cons.IH)
qed

lemma push_addInterfaces_eq:
  "push_addInterfaces env xs (ps, s) =
     (ps @ map rejected
        (outcomes env (execLog s) (map (\<lambda>p. addInterface_cmd (options s) (fst p) (snd p)) xs)),
      s\<lparr>execLog := execLog s @ map (\<lambda>p. addInterface_cmd (options s) (fst p) (snd p)) xs\<rparr>)"
proof (induction xs arbitrary: ps s)
  case Nil
  show ?case by simp
next
  case (Cons x xs)
  show ?case by (simp add: u_addInterface_eq Cons.IH)
qed

lemma outcomes_append:
  "outcomes env lg (cs @ ds) = outcomes env lg cs @ outcomes env (lg @ cs) ds"
  by (induction cs arbitrary: lg) simp_all

lemma Promise_all_rejected:
  "Promise_all (map rejected bs) = (if True \<in> set bs then Inl ExecError else Inr ())"
  by (induction bs) (auto simp: rejected_def)

lemma rebuild_eq:
  "rebuild env s =
     (if env (execLog s) (flush_cmd (options s)) then
        (Inr False, s\<lparr>execLog := execLog s @ [flush_cmd (options s)]\<rparr>)
      else
        (if True \<in> set (outcomes env (execLog s @ [flush_cmd (options s)])
                         (host_appends s @ iface_appends s))
         then Inl ExecError else Inr True,
         s\<lparr>execLog := execLog s @ [flush_cmd (options s)] @ host_appends s @ iface_appends s\<rparr>))"
  by (simp add: rebuild_def flush_eq push_adds_eq push_addInterfaces_eq host_appends_def
      iface_appends_def outcomes_append Promise_all_rejected
      flip: map_append)

lemma add_cmd_not_flush: "add_cmd opts h t \<noteq> flush_cmd opts"
  by (simp add: add_cmd_def flush_cmd_def)

lemma addInterface_cmd_not_flush: "addInterface_cmd opts i t \<noteq> flush_cmd opts"
  by (simp add: addInterface_cmd_def flush_cmd_def)

lemma flush_not_in_appends:
  "flush_cmd (options s) \<notin> set (host_appends s @ iface_appends s)"
  by (auto simp: host_appends_def iface_appends_def add_cmd_not_flush [symmetric]
      addInterface_cmd_not_flush [symmetric])

lemma add_eq:
  "add env h jt s =
     (if cache_includes (now s) (hostStorage s) h then
        (Inr True, s\<lparr>hostStorage := cache_set (now s) (hostStorage s) h (default_target jt)\<rparr>)
      else if env (execLog s) (add_cmd (options s) h (default_target jt)) then
        (Inl ExecError, s\<lparr>execLog := execLog s @ [add_cmd (options s) h (default_target jt)]\<rparr>)
      else
        (Inr True, s\<lparr>execLog := execLog s @ [add_cmd (options s) h (default_target jt)],
                     hostStorage := cache_set (now s) (hostStorage s) h (default_target jt)\<rparr>))"
  by (simp add: add_def u_add_eq rejected_def Let_def)

subsection \<open>The store\<close>

lemma map_of_upsert_same: "map_of (upsert k ve xs) k = Some ve"
  by (induction xs) auto

lemma upsert_keys_subset: "set (map fst (upsert k ve xs)) = insert k (set (map fst xs))"
  by (induction xs) auto

lemma distinct_upsert: "distinct (map fst xs) \<Longrightarrow> distinct (map fst (upsert k ve xs))"
  by (induction xs) (auto simp: upsert_keys_subset simp flip: set_map)

lemma filter_key_absent: "k \<notin> fst ` set xs \<Longrightarrow> filter (\<lambda>p. fst p = k) xs = []"
  by (induction xs) auto

lemma filter_key_upsert:
  "distinct (map fst xs) \<Longrightarrow> filter (\<lambda>p. fst p = k) (upsert k ve xs) = [(k, ve)]"
  by (induction xs) (auto simp: filter_key_absent)

lemma map_of_filter_key: "map_of (filter (\<lambda>p. fst p \<noteq> k) xs) k = None"
  by (induction xs) auto

lemma filter_key_fresh_insert:
  "filter (\<lambda>p. fst p = k) (filter (\<lambda>p. fst p \<noteq> k) xs @ [(k, ve)]) = [(k, ve)]"
  by (induction xs) auto

lemma cache_set_lookup:
  "map_of (entries (cache_set t c k v)) k =
     Some (v, if cache_stdTTL c = 0 then None else Some (t + cache_stdTTL c))"
  by (auto simp: cache_set_def Let_def map_of_upsert_same map_add_def map_of_filter_key)

lemma cache_includes_set:
  "cache_includes t (cache_set t c k v) k"
  by (simp add: cache_includes_def cache_set_lookup entry_expired_def)

lemma cache_includes_set_later:
  "cache_stdTTL c = 0 \<or> d \<le> cache_stdTTL c \<Longrightarrow> cache_includes (t + d) (cache_set t c k v) k"
  by (auto simp: cache_includes_def cache_set_lookup entry_expired_def)

lemma cache_ok_set: "cache_ok c \<Longrightarrow> cache_ok (cache_set t c k v)"
  by (auto simp: cache_ok_def cache_set_def Let_def distinct_upsert distinct_map_filter)

lemma cache_ok_del: "cache_ok c \<Longrightarrow> cache_ok (cache_del c k)"
  by (simp add: cache_ok_def cache_del_def distinct_map_filter)

lemma cache_list_key_filter:
  "filter (\<lambda>p. fst p = k) (cache_list t c) =
     map (\<lambda>p. (fst p, fst (snd p)))
       (filter (\<lambda>p. \<not> entry_expired t (snd (snd p))) (filter (\<lambda>p. fst p = k) (entries c)))"
  by (simp add: cache_list_def filter_map comp_def conj_commute)

lemma cache_set_key_entries:
  "cache_ok c \<Longrightarrow>
     filter (\<lambda>p. fst p = k) (entries (cache_set t c k v)) =
       [(k, v, if cache_stdTTL c = 0 then None else Some (t + cache_stdTTL c))]"
  by (simp add: cache_set_def Let_def cache_ok_def filter_key_upsert filter_key_fresh_insert)

lemma cache_list_set_one:
  assumes "cache_ok c"
  shows "filter (\<lambda>p. fst p = k) (cache_list t (cache_set t c k v)) = [(k, v)]"
proof -
  have "filter (\<lambda>p. fst p = k) (cache_list t (cache_set t c k v)) =
      map (\<lambda>p. (fst p, fst (snd p)))
        (filter (\<lambda>p. \<not> entry_expired t (snd (snd p)))
           [(k, v, if cache_stdTTL c = 0 then None else Some (t + cache_stdTTL c))])"
    unfolding cache_list_key_filter cache_set_key_entries [OF assms] ..
  then show ?thesis
    by (simp add: entry_expired_def)
qed

lemma cache_not_includes_del: "\<not> cache_includes t (cache_del c k) k"
  by (simp add: cache_includes_def cache_del_def map_of_filter_key)

subsection \<open>Evaluation of the concrete run\<close>

lemmas eval_defs =
  all_succeed_def nth_fails_def flush_cmd_def add_cmd_def addInterface_cmd_def opt_iptables_def
  default_target_def cache_includes_def cache_set_def cache_del_def cache_list_def
  cache_clear_def cache_expired_keys_def entry_expired_def host_appends_def iface_appends_def
  advance_def Let_def

lemma outcomes_all_succeed: "True \<notin> set (outcomes all_succeed lg cs)"
  by (induction cs arbitrary: lg) (simp_all add: all_succeed_def)

lemma fresh_constructed:
  "constructor (\<lambda>name. None) (\<lambda>path. path) 0 demo_options = Inr fresh"
  by (simp add: constructor_def demo_options_def fresh_def or_else_def new_MemoryCache_def)

lemma demo_reached:
  "addInterface all_succeed ''eth2'' (Some ''DROP'')
     (snd (add all_succeed ''1.1.1.1'' None
        (snd (add all_succeed ''8.8.8.8'' (Some ''DROP'') fresh)))) = (Inr True, demo)"
  by (simp add: add_eq addInterface_def u_addInterface_eq rejected_def fresh_def demo_def
      eval_defs)

section \<open>The rebuild protocol\<close>

text \<open>
  Claim C1. Whatever the two stores hold: when the flush command and every append command
  succeed, \<open>rebuild\<close> returns \<open>true\<close> and has handed to \<open>exec\<close> exactly one flush command,
  then one append command for each entry of the host store in its enumeration order, then
  one append command for each entry of the interface store in its enumeration order, and
  nothing else. It returns \<open>true\<close> in no other case; whenever the flush succeeds it issues
  exactly these commands; and none of the append commands is the flush command.
\<close>

theorem rebuild_success_commands:
  "(\<not> env (execLog s) (flush_cmd (options s)) \<and>
    True \<notin> set (outcomes env (execLog s @ [flush_cmd (options s)])
                 (host_appends s @ iface_appends s)) \<longrightarrow>
      rebuild env s =
        (Inr True,
         s\<lparr>execLog := execLog s @ [flush_cmd (options s)] @ host_appends s @ iface_appends s\<rparr>)) \<and>
   (fst (rebuild env s) = Inr True \<longleftrightarrow>
      \<not> env (execLog s) (flush_cmd (options s)) \<and>
      True \<notin> set (outcomes env (execLog s @ [flush_cmd (options s)])
                   (host_appends s @ iface_appends s))) \<and>
   (\<not> env (execLog s) (flush_cmd (options s)) \<longrightarrow>
      execLog (snd (rebuild env s)) =
        execLog s @ [flush_cmd (options s)] @ host_appends s @ iface_appends s) \<and>
   flush_cmd (options s) \<notin> set (host_appends s @ iface_appends s)"
proof (intro conjI impI)
  assume "\<not> env (execLog s) (flush_cmd (options s)) \<and>
      True \<notin> set (outcomes env (execLog s @ [flush_cmd (options s)])
                   (host_appends s @ iface_appends s))"
  then show "rebuild env s =
      (Inr True,
       s\<lparr>execLog := execLog s @ [flush_cmd (options s)] @ host_appends s @ iface_appends s\<rparr>)"
    by (simp add: rebuild_eq)
next
  show "fst (rebuild env s) = Inr True \<longleftrightarrow>
      \<not> env (execLog s) (flush_cmd (options s)) \<and>
      True \<notin> set (outcomes env (execLog s @ [flush_cmd (options s)])
                   (host_appends s @ iface_appends s))"
    by (simp add: rebuild_eq)
next
  assume "\<not> env (execLog s) (flush_cmd (options s))"
  then show "execLog (snd (rebuild env s)) =
      execLog s @ [flush_cmd (options s)] @ host_appends s @ iface_appends s"
    by (simp add: rebuild_eq)
next
  show "flush_cmd (options s) \<notin> set (host_appends s @ iface_appends s)"
    by (rule flush_not_in_appends)
qed

theorem rebuild_success_commands_witness:
  "\<not> all_succeed (execLog demo) (flush_cmd (options demo)) \<and>
   True \<notin> set (outcomes all_succeed (execLog demo @ [flush_cmd (options demo)])
                (host_appends demo @ iface_appends demo)) \<and>
   rebuild all_succeed demo =
     (Inr True, demo\<lparr>execLog := execLog demo @
        [''/usr/sbin/iptables -F INPUT'',
         ''/usr/sbin/iptables -A INPUT -s 8.8.8.8 -j DROP'',
         ''/usr/sbin/iptables -A INPUT -s 1.1.1.1 -j ACCEPT'',
         ''/usr/sbin/iptables -A INPUT -i eth2 -j DROP'']\<rparr>)"
proof -
  have a: "\<not> all_succeed (execLog demo) (flush_cmd (options demo))"
    by (simp add: all_succeed_def)
  have b: "True \<notin> set (outcomes all_succeed (execLog demo @ [flush_cmd (options demo)])
      (host_appends demo @ iface_appends demo))"
    by (rule outcomes_all_succeed)
  from rebuild_success_commands [of all_succeed demo] a b
  have "rebuild all_succeed demo =
      (Inr True, demo\<lparr>execLog := execLog demo @ [flush_cmd (options demo)] @
         host_appends demo @ iface_appends demo\<rparr>)"
    by blast
  then have "rebuild all_succeed demo =
     (Inr True, demo\<lparr>execLog := execLog demo @
        [''/usr/sbin/iptables -F INPUT'',
         ''/usr/sbin/iptables -A INPUT -s 8.8.8.8 -j DROP'',
         ''/usr/sbin/iptables -A INPUT -s 1.1.1.1 -j ACCEPT'',
         ''/usr/sbin/iptables -A INPUT -i eth2 -j DROP'']\<rparr>)"
    by (simp add: demo_def eval_defs)
  with a b show ?thesis by simp
qed

text \<open>
  Claim C7. When the flush command of \<open>rebuild\<close> fails, \<open>rebuild\<close> returns \<open>false\<close> (the
  rejection is caught, no error reaches the caller) and the flush command is the only
  command it has issued: no append command follows.
\<close>

theorem rebuild_flush_failure:
  assumes "env (execLog s) (flush_cmd (options s))"
  shows "rebuild env s = (Inr False, s\<lparr>execLog := execLog s @ [flush_cmd (options s)]\<rparr>)"
  using assms by (simp add: rebuild_eq)

theorem rebuild_flush_failure_witness:
  "nth_fails 3 (execLog demo) (flush_cmd (options demo)) \<and>
   rebuild (nth_fails 3) demo =
     (Inr False, demo\<lparr>execLog := execLog demo @ [''/usr/sbin/iptables -F INPUT'']\<rparr>)"
proof -
  have a: "nth_fails 3 (execLog demo) (flush_cmd (options demo))"
    by (simp add: demo_def nth_fails_def)
  from rebuild_flush_failure [where env = "nth_fails 3" and s = demo, OF a] a show ?thesis
    by (simp add: demo_def eval_defs)
qed

section \<open>Flushing\<close>

text \<open>
  Claim C8. \<open>flush(nothrow)\<close> hands exactly one command to \<open>exec\<close>, the flush of the chain.
  When that command fails, \<open>flush\<close> is rejected with the error of \<open>exec\<close> if \<open>nothrow\<close> is
  false and is resolved if \<open>nothrow\<close> is true; when the command succeeds it is resolved.
\<close>

theorem flush_one_command:
  "execLog (snd (flush env nothrow s)) = execLog s @ [flush_cmd (options s)] \<and>
   (env (execLog s) (flush_cmd (options s)) \<longrightarrow>
      fst (flush env nothrow s) = (if nothrow then Inr () else Inl ExecError)) \<and>
   (\<not> env (execLog s) (flush_cmd (options s)) \<longrightarrow> fst (flush env nothrow s) = Inr ())"
  by (simp add: flush_eq)

theorem flush_one_command_witness:
  "nth_fails 3 (execLog demo) (flush_cmd (options demo)) \<and>
   flush (nth_fails 3) False demo =
     (Inl ExecError, demo\<lparr>execLog := execLog demo @ [''/usr/sbin/iptables -F INPUT'']\<rparr>) \<and>
   flush (nth_fails 3) True demo =
     (Inr (), demo\<lparr>execLog := execLog demo @ [''/usr/sbin/iptables -F INPUT'']\<rparr>) \<and>
   \<not> all_succeed (execLog demo) (flush_cmd (options demo)) \<and>
   fst (flush all_succeed False demo) = Inr ()"
proof -
  have a: "nth_fails 3 (execLog demo) (flush_cmd (options demo))"
    by (simp add: demo_def nth_fails_def)
  have b: "\<not> all_succeed (execLog demo) (flush_cmd (options demo))"
    by (simp add: all_succeed_def)
  have c: "snd (flush env nothrow demo) =
      demo\<lparr>execLog := execLog (snd (flush env nothrow demo))\<rparr>" for env nothrow
    by (simp add: flush_eq)
  from flush_one_command [of "nth_fails 3" False demo] a
  have "fst (flush (nth_fails 3) False demo) = Inl ExecError \<and>
      execLog (snd (flush (nth_fails 3) False demo)) =
        execLog demo @ [''/usr/sbin/iptables -F INPUT'']"
    by (simp add: demo_def eval_defs)
  moreover from flush_one_command [of "nth_fails 3" True demo] a
  have "fst (flush (nth_fails 3) True demo) = Inr () \<and>
      execLog (snd (flush (nth_fails 3) True demo)) =
        execLog demo @ [''/usr/sbin/iptables -F INPUT'']"
    by (simp add: demo_def eval_defs)
  moreover from flush_one_command [of all_succeed False demo] b
  have "fst (flush all_succeed False demo) = Inr ()"
    by simp
  ultimately show ?thesis
    using a b c [of "nth_fails 3" False] c [of "nth_fails 3" True]
    by (simp add: prod_eq_iff)
qed



section \<open>Construction\<close>

text \<open>
  Claim C9. The constructor throws the error for an unknown address family exactly when
  a family is given and it is neither 4 nor 6; the throw is a result of the constructor
  itself, before any store exists. When no family is given the constructor returns a
  controller whose family option is 4.
\<close>

theorem constructor_family:
  "(constructor which_sync resolve t0 opts = Inl UnknownAddressFamily \<longleftrightarrow>
      (\<exists>f. family opts = Some f \<and> f \<noteq> 4 \<and> f \<noteq> 6)) \<and>
   (family opts = None \<longrightarrow>
      (\<exists>c. constructor which_sync resolve t0 opts = Inr c \<and> family (options c) = Some 4))"
  by (cases "family opts") (auto simp: constructor_def Let_def)

theorem constructor_family_witness:
  "family demo_options = None \<and>
   constructor (\<lambda>name. None) (\<lambda>path. path) 0 demo_options = Inr fresh \<and>
   family (options fresh) = Some 4 \<and>
   constructor (\<lambda>name. None) (\<lambda>path. path) 0 (demo_options\<lparr>family := Some 5\<rparr>) =
     Inl UnknownAddressFamily"
proof -
  have a: "family demo_options = None"
    by (simp add: demo_options_def)
  have b: "\<exists>f. family (demo_options\<lparr>family := Some 5\<rparr>) = Some f \<and> f \<noteq> 4 \<and> f \<noteq> 6"
    by simp
  from constructor_family [of "\<lambda>name. None" "\<lambda>path. path" 0 demo_options] a
  have "\<exists>c. constructor (\<lambda>name. None) (\<lambda>path. path) 0 demo_options = Inr c \<and>
      family (options c) = Some 4"
    by simp
  then have "family (options fresh) = Some 4"
    by (simp add: fresh_constructed)
  moreover from constructor_family [of "\<lambda>name. None" "\<lambda>path. path" 0
      "demo_options\<lparr>family := Some 5\<rparr>"] b
  have "constructor (\<lambda>name. None) (\<lambda>path. path) 0 (demo_options\<lparr>family := Some 5\<rparr>) =
      Inl UnknownAddressFamily"
    by blast
  ultimately show ?thesis
    using a fresh_constructed by simp
qed

section \<open>Adding a host\<close>

text \<open>The stores a controller can reach keep their keys unique.\<close>

lemma cache_ok_new: "cache_ok (new_MemoryCache ttl period)"
  by (simp add: cache_ok_def new_MemoryCache_def)

lemma cache_ok_constructor:
  "constructor which_sync resolve t0 opts = Inr c \<Longrightarrow>
     cache_ok (hostStorage c) \<and> cache_ok (ifaceStorage c)"
  by (auto simp: constructor_def Let_def cache_ok_new split: if_splits)

lemma cache_ok_add:
  "cache_ok (hostStorage s) \<Longrightarrow> cache_ok (hostStorage (snd (add env h jt s)))"
  by (simp add: add_eq cache_ok_set)

lemma cache_ok_delete:
  "cache_ok (hostStorage s) \<Longrightarrow> cache_ok (hostStorage (snd (delete env h s)))"
  by (simp add: delete_def rebuild_eq cache_ok_del)

text \<open>
  Claim C5, as the code has it. In a host store with unique keys: when \<open>h\<close> is present,
  \<open>add(h, t)\<close> succeeds, issues no command and leaves exactly one entry for \<open>h\<close> in the
  enumeration, with the value \<open>t\<close> (the default target when \<open>t\<close> is left out). When \<open>h\<close> is
  not present and the append command succeeds, the first \<open>add(h, t)\<close> returns \<open>true\<close>,
  having issued that one append and set the entry; the same call again, \<open>d\<close> time units
  later and before the TTL has elapsed (or with no TTL), returns \<open>true\<close> and issues no
  command, so the two calls together have issued exactly one command, and the store holds
  exactly one entry for \<open>h\<close>, with the value \<open>t\<close>.
\<close>

theorem add_known_host:
  assumes "cache_ok (hostStorage s)"
  shows "(cache_includes (now s) (hostStorage s) h \<longrightarrow>
            fst (add env h jt s) = Inr True \<and>
            execLog (snd (add env h jt s)) = execLog s \<and>
            filter (\<lambda>p. fst p = h)
              (cache_list (now s) (hostStorage (snd (add env h jt s)))) =
              [(h, default_target jt)]) \<and>
         (\<not> cache_includes (now s) (hostStorage s) h \<and>
          \<not> env (execLog s) (add_cmd (options s) h (default_target jt)) \<and>
          (cache_stdTTL (hostStorage s) = 0 \<or> d \<le> cache_stdTTL (hostStorage s)) \<longrightarrow>
            add env h jt s =
              (Inr True,
               s\<lparr>execLog := execLog s @ [add_cmd (options s) h (default_target jt)],
                 hostStorage := cache_set (now s) (hostStorage s) h (default_target jt)\<rparr>) \<and>
            fst (add env h jt (advance d (snd (add env h jt s)))) = Inr True \<and>
            execLog (snd (add env h jt (advance d (snd (add env h jt s))))) =
              execLog s @ [add_cmd (options s) h (default_target jt)] \<and>
            filter (\<lambda>p. fst p = h)
              (cache_list (now s + d)
                 (hostStorage (snd (add env h jt (advance d (snd (add env h jt s))))))) =
              [(h, default_target jt)])"
proof (intro conjI impI)
  assume "cache_includes (now s) (hostStorage s) h"
  then have eq: "add env h jt s =
      (Inr True, s\<lparr>hostStorage := cache_set (now s) (hostStorage s) h (default_target jt)\<rparr>)"
    by (simp add: add_eq)
  show "fst (add env h jt s) = Inr True" by (simp add: eq)
  show "execLog (snd (add env h jt s)) = execLog s" by (simp add: eq)
  show "filter (\<lambda>p. fst p = h) (cache_list (now s) (hostStorage (snd (add env h jt s)))) =
      [(h, default_target jt)]"
    using assms by (simp add: eq cache_list_set_one)
next
  let ?t = "default_target jt"
  assume a: "\<not> cache_includes (now s) (hostStorage s) h \<and>
      \<not> env (execLog s) (add_cmd (options s) h ?t) \<and>
      (cache_stdTTL (hostStorage s) = 0 \<or> d \<le> cache_stdTTL (hostStorage s))"
  define s1 where "s1 = s\<lparr>execLog := execLog s @ [add_cmd (options s) h ?t],
      hostStorage := cache_set (now s) (hostStorage s) h ?t\<rparr>"
  define s2 where "s2 = advance d s1"
  from a have first: "add env h jt s = (Inr True, s1)"
    by (simp add: add_eq s1_def)
  have now2: "now s2 = now s + d" and log2: "execLog s2 = execLog s @ [add_cmd (options s) h ?t]"
    and store2: "hostStorage s2 = cache_set (now s) (hostStorage s) h ?t"
    by (simp_all add: s2_def s1_def advance_def)
  from a have known: "cache_includes (now s2) (hostStorage s2) h"
    by (simp add: now2 store2 cache_includes_set_later)
  have ok2: "cache_ok (hostStorage s2)"
    using assms by (simp add: store2 cache_ok_set)
  from known have second: "add env h jt s2 =
      (Inr True, s2\<lparr>hostStorage := cache_set (now s2) (hostStorage s2) h ?t\<rparr>)"
    by (simp add: add_eq)
  show "add env h jt s =
      (Inr True,
       s\<lparr>execLog := execLog s @ [add_cmd (options s) h ?t],
         hostStorage := cache_set (now s) (hostStorage s) h ?t\<rparr>)"
    by (simp add: first s1_def)
  show "fst (add env h jt (advance d (snd (add env h jt s)))) = Inr True"
    by (simp add: first second flip: s2_def)
  show "execLog (snd (add env h jt (advance d (snd (add env h jt s))))) =
      execLog s @ [add_cmd (options s) h ?t]"
    by (simp add: first second log2 flip: s2_def)
  from ok2 have "filter (\<lambda>p. fst p = h)
      (cache_list (now s2) (cache_set (now s2) (hostStorage s2) h ?t)) = [(h, ?t)]"
    by (rule cache_list_set_one)
  then show "filter (\<lambda>p. fst p = h)
      (cache_list (now s + d)
         (hostStorage (snd (add env h jt (advance d (snd (add env h jt s))))))) = [(h, ?t)]"
    by (simp add: first second now2 flip: s2_def)
qed

theorem add_known_host_witness:
  "cache_ok (hostStorage demo) \<and> cache_includes (now demo) (hostStorage demo) ''8.8.8.8'' \<and>
   add all_succeed ''8.8.8.8'' (Some ''DROP'') demo = (Inr True, demo) \<and>
   cache_ok (hostStorage fresh) \<and> \<not> cache_includes (now fresh) (hostStorage fresh) ''8.8.8.8'' \<and>
   \<not> all_succeed (execLog fresh)
       (add_cmd (options fresh) ''8.8.8.8'' (default_target (Some ''DROP''))) \<and>
   (5::nat) \<le> cache_stdTTL (hostStorage fresh) \<and>
   fst (add all_succeed ''8.8.8.8'' (Some ''DROP'') fresh) = Inr True \<and>
   execLog (snd (add all_succeed ''8.8.8.8'' (Some ''DROP'')
     (advance 5 (snd (add all_succeed ''8.8.8.8'' (Some ''DROP'') fresh))))) =
     [''/usr/sbin/iptables -A INPUT -s 8.8.8.8 -j DROP''] \<and>
   cache_list 5 (hostStorage (snd (add all_succeed ''8.8.8.8'' (Some ''DROP'')
     (advance 5 (snd (add all_succeed ''8.8.8.8'' (Some ''DROP'') fresh)))))) =
     [(''8.8.8.8'', ''DROP'')]"
proof -
  have ok1: "cache_ok (hostStorage demo)"
    by (simp add: cache_ok_def demo_def)
  have in1: "cache_includes (now demo) (hostStorage demo) ''8.8.8.8''"
    by (simp add: demo_def eval_defs)
  have ok2: "cache_ok (hostStorage fresh)"
    by (simp add: cache_ok_def fresh_def)
  have out2: "\<not> cache_includes (now fresh) (hostStorage fresh) ''8.8.8.8''"
    by (simp add: fresh_def eval_defs)
  have env2: "\<not> all_succeed (execLog fresh)
      (add_cmd (options fresh) ''8.8.8.8'' (default_target (Some ''DROP'')))"
    by (simp add: all_succeed_def)
  have ttl2: "(5::nat) \<le> cache_stdTTL (hostStorage fresh)"
    by (simp add: fresh_def)
  have fst2: "fst (add all_succeed ''8.8.8.8'' (Some ''DROP'') fresh) = Inr True"
    by (simp add: add_eq all_succeed_def)
  have rendered: "execLog fresh @
      [add_cmd (options fresh) ''8.8.8.8'' (default_target (Some ''DROP''))] =
      [''/usr/sbin/iptables -A INPUT -s 8.8.8.8 -j DROP'']"
    by (simp add: fresh_def eval_defs)
  have same: "snd (add all_succeed ''8.8.8.8'' (Some ''DROP'') demo) = demo"
    by (simp add: add_eq in1) (simp add: demo_def eval_defs)
  have lst: "cache_list 5 (hostStorage (snd (add all_succeed ''8.8.8.8'' (Some ''DROP'')
     (advance 5 (snd (add all_succeed ''8.8.8.8'' (Some ''DROP'') fresh)))))) =
     [(''8.8.8.8'', ''DROP'')]"
    by (simp add: add_eq fresh_def eval_defs)
  from add_known_host [OF ok1, of "''8.8.8.8''" all_succeed "Some ''DROP''"] in1
  have "fst (add all_succeed ''8.8.8.8'' (Some ''DROP'') demo) = Inr True"
    by simp
  moreover from add_known_host [OF ok2, of "''8.8.8.8''" all_succeed "Some ''DROP''" 5]
    out2 env2 ttl2
  have "execLog (snd (add all_succeed ''8.8.8.8'' (Some ''DROP'')
       (advance 5 (snd (add all_succeed ''8.8.8.8'' (Some ''DROP'') fresh))))) =
     execLog fresh @ [add_cmd (options fresh) ''8.8.8.8'' (default_target (Some ''DROP''))]"
    by blast
  then have "execLog (snd (add all_succeed ''8.8.8.8'' (Some ''DROP'')
       (advance 5 (snd (add all_succeed ''8.8.8.8'' (Some ''DROP'') fresh))))) =
     [''/usr/sbin/iptables -A INPUT -s 8.8.8.8 -j DROP'']"
    by (simp only: rendered)
  ultimately show ?thesis
    using ok1 in1 ok2 out2 env2 ttl2 fst2 same lst by (simp add: prod_eq_iff)
qed

text \<open>
  Claim C5 as the specification words it has two calls \<open>add(h, t)\<close> with the same arguments
  issue exactly one append command, whatever the state. Three runs where they do not:
  \<open>8.8.8.8\<close> is already present, and the two calls issue no command; \<open>8.8.8.8\<close> is new, the
  second call comes 301 time units after the first with a TTL of 300 and no sweep in
  between, and the two calls issue two appends; \<open>8.8.8.8\<close> is new and the first append
  fails, and the two calls issue two appends.
\<close>

theorem add_twice_one_append_counterexample:
  "cache_includes (now demo) (hostStorage demo) ''8.8.8.8'' \<and>
   execLog (snd (add all_succeed ''8.8.8.8'' (Some ''DROP'')
     (snd (add all_succeed ''8.8.8.8'' (Some ''DROP'') demo)))) = execLog demo \<and>
   execLog fresh = [] \<and>
   execLog (snd (add all_succeed ''8.8.8.8'' (Some ''DROP'')
     (advance 301 (snd (add all_succeed ''8.8.8.8'' (Some ''DROP'') fresh))))) =
     [''/usr/sbin/iptables -A INPUT -s 8.8.8.8 -j DROP'',
      ''/usr/sbin/iptables -A INPUT -s 8.8.8.8 -j DROP''] \<and>
   fst (add (nth_fails 0) ''8.8.8.8'' (Some ''DROP'') fresh) = Inl ExecError \<and>
   execLog (snd (add (nth_fails 0) ''8.8.8.8'' (Some ''DROP'')
     (snd (add (nth_fails 0) ''8.8.8.8'' (Some ''DROP'') fresh)))) =
     [''/usr/sbin/iptables -A INPUT -s 8.8.8.8 -j DROP'',
      ''/usr/sbin/iptables -A INPUT -s 8.8.8.8 -j DROP'']"
  by (simp add: add_eq fresh_def demo_def eval_defs)

text \<open>
  Claim C10. When \<open>h\<close> is not present and the append command of \<open>add(h, t)\<close> fails, \<open>add\<close>
  is rejected with the error of \<open>exec\<close> and both stores are the ones they were before:
  \<open>h\<close> is not inserted and no value or expiry has changed.
\<close>

theorem add_failure_atomic:
  assumes "\<not> cache_includes (now s) (hostStorage s) h"
    and "env (execLog s) (add_cmd (options s) h (default_target jt))"
  shows "fst (add env h jt s) = Inl ExecError \<and>
         hostStorage (snd (add env h jt s)) = hostStorage s \<and>
         ifaceStorage (snd (add env h jt s)) = ifaceStorage s"
  using assms by (simp add: add_eq)

theorem add_failure_atomic_witness:
  "\<not> cache_includes (now demo) (hostStorage demo) ''9.9.9.9'' \<and>
   nth_fails 3 (execLog demo)
     (add_cmd (options demo) ''9.9.9.9'' (default_target (Some ''DROP''))) \<and>
   fst (add (nth_fails 3) ''9.9.9.9'' (Some ''DROP'') demo) = Inl ExecError \<and>
   hostStorage (snd (add (nth_fails 3) ''9.9.9.9'' (Some ''DROP'') demo)) = hostStorage demo"
proof -
  have a: "\<not> cache_includes (now demo) (hostStorage demo) ''9.9.9.9''"
    by (simp add: demo_def eval_defs)
  have b: "nth_fails 3 (execLog demo)
      (add_cmd (options demo) ''9.9.9.9'' (default_target (Some ''DROP'')))"
    by (simp add: demo_def nth_fails_def)
  from add_failure_atomic [where env = "nth_fails 3" and s = demo and h = "''9.9.9.9''"
      and jt = "Some ''DROP''", OF a b] a b
  show ?thesis by simp
qed

section \<open>Deleting a host\<close>

text \<open>
  Claim C3, as the code has it. When \<open>h\<close> is not present, \<open>delete(h)\<close> returns \<open>false\<close> and
  leaves the state as it was, so it issues no command. When \<open>h\<close> is present, \<open>delete(h)\<close>
  removes \<open>h\<close> from the host store whatever happens next; it returns \<open>false\<close> exactly when
  the flush command fails, it returns \<open>true\<close> exactly when the flush command and every
  append command of the rebuild succeed, and it is rejected with the error of \<open>exec\<close>
  exactly when the flush succeeds and some append command fails.
\<close>

theorem delete_result:
  "(\<not> cache_includes (now s) (hostStorage s) h \<longrightarrow> delete env h s = (Inr False, s)) \<and>
   (cache_includes (now s) (hostStorage s) h \<longrightarrow>
      hostStorage (snd (delete env h s)) = cache_del (hostStorage s) h \<and>
      \<not> cache_includes (now (snd (delete env h s))) (hostStorage (snd (delete env h s))) h \<and>
      (fst (delete env h s) = Inr False \<longleftrightarrow> env (execLog s) (flush_cmd (options s))) \<and>
      (fst (delete env h s) = Inr True \<longleftrightarrow>
         \<not> env (execLog s) (flush_cmd (options s)) \<and>
         True \<notin> set (outcomes env (execLog s @ [flush_cmd (options s)])
           (host_appends (s\<lparr>hostStorage := cache_del (hostStorage s) h\<rparr>) @
            iface_appends (s\<lparr>hostStorage := cache_del (hostStorage s) h\<rparr>)))) \<and>
      (fst (delete env h s) = Inl ExecError \<longleftrightarrow>
         \<not> env (execLog s) (flush_cmd (options s)) \<and>
         True \<in> set (outcomes env (execLog s @ [flush_cmd (options s)])
           (host_appends (s\<lparr>hostStorage := cache_del (hostStorage s) h\<rparr>) @
            iface_appends (s\<lparr>hostStorage := cache_del (hostStorage s) h\<rparr>)))))"
  by (simp add: delete_def rebuild_eq cache_not_includes_del)

theorem delete_result_witness:
  "\<not> cache_includes (now demo) (hostStorage demo) ''9.9.9.9'' \<and>
   delete all_succeed ''9.9.9.9'' demo = (Inr False, demo) \<and>
   cache_includes (now demo) (hostStorage demo) ''8.8.8.8'' \<and>
   fst (delete all_succeed ''8.8.8.8'' demo) = Inr True \<and>
   fst (delete (nth_fails 3) ''8.8.8.8'' demo) = Inr False \<and>
   fst (delete (nth_fails 4) ''8.8.8.8'' demo) = Inl ExecError \<and>
   cache_list 0 (hostStorage (snd (delete (nth_fails 3) ''8.8.8.8'' demo))) =
     [(''1.1.1.1'', ''ACCEPT'')]"
proof -
  have a: "\<not> cache_includes (now demo) (hostStorage demo) ''9.9.9.9''"
    by (simp add: demo_def eval_defs)
  have b: "cache_includes (now demo) (hostStorage demo) ''8.8.8.8''"
    by (simp add: demo_def eval_defs)
  from delete_result [of demo "''9.9.9.9''" all_succeed] a
  have "delete all_succeed ''9.9.9.9'' demo = (Inr False, demo)"
    by simp
  moreover from delete_result [of demo "''8.8.8.8''" all_succeed] b
  have "fst (delete all_succeed ''8.8.8.8'' demo) = Inr True"
    by (simp add: outcomes_all_succeed) (simp add: all_succeed_def)
  moreover from delete_result [of demo "''8.8.8.8''" "nth_fails 3"] b
  have "fst (delete (nth_fails 3) ''8.8.8.8'' demo) = Inr False \<and>
      cache_list 0 (hostStorage (snd (delete (nth_fails 3) ''8.8.8.8'' demo))) =
        [(''1.1.1.1'', ''ACCEPT'')]"
    by (simp add: demo_def eval_defs)
  moreover from delete_result [of demo "''8.8.8.8''" "nth_fails 4"] b
  have "fst (delete (nth_fails 4) ''8.8.8.8'' demo) = Inl ExecError"
    by (simp add: demo_def eval_defs)
  ultimately show ?thesis
    using a b by simp
qed

text \<open>
  Claim C3 as the specification words it has \<open>delete\<close> return \<open>true\<close> whenever the flush
  succeeds. In the run below \<open>8.8.8.8\<close> is present and the flush succeeds, but the append
  for \<open>1.1.1.1\<close> fails: \<open>Promise.all\<close> is rejected, nothing in \<open>rebuild\<close> catches it, and
  \<open>delete\<close> is rejected instead of returning \<open>true\<close>.
\<close>

theorem delete_true_iff_flush_counterexample:
  "cache_includes (now demo) (hostStorage demo) ''8.8.8.8'' \<and>
   fst (flush (nth_fails 4) False demo) = Inr () \<and>
   delete (nth_fails 4) ''8.8.8.8'' demo =
     (Inl ExecError,
      demo\<lparr>hostStorage := \<lparr>entries = [(''1.1.1.1'', ''ACCEPT'', Some 300)],
                              cache_stdTTL = 300, checkperiod = 30\<rparr>,
           execLog := execLog demo @
             [''/usr/sbin/iptables -F INPUT'',
              ''/usr/sbin/iptables -A INPUT -s 1.1.1.1 -j ACCEPT'',
              ''/usr/sbin/iptables -A INPUT -i eth2 -j DROP'']\<rparr>)"
  by (simp add: delete_def rebuild_eq flush_eq demo_def eval_defs)

section \<open>Keep-alive\<close>

text \<open>
  \<open>keepAlive(host)\<close> is \<open>add(host)\<close> with the target left out. On a present host it issues
  no command and sets the entry again: the expiry becomes now + TTL, and the value becomes
  the default target \<open>ACCEPT\<close>, whatever the stored target was.
\<close>

lemma cache_set_expiry:
  "cache_expiry (cache_set t c k v) k =
     (if cache_stdTTL c = 0 then None else Some (t + cache_stdTTL c))"
  by (simp add: cache_expiry_def cache_set_lookup)

lemma keepAlive_known:
  assumes "cache_includes (now s) (hostStorage s) h"
  shows "keepAlive env h s =
     (Inr (), s\<lparr>hostStorage := cache_set (now s) (hostStorage s) h ''ACCEPT''\<rparr>)"
  using assms by (simp add: keepAlive_def add_eq default_target_def)

text \<open>
  Claim C4 asks that \<open>keepAlive(h)\<close> refresh the expiry of a present host and keep its
  stored target. The run: \<open>add('8.8.8.8', 'DROP')\<close> at time 0, \<open>keepAlive('8.8.8.8')\<close> at
  time 5. The expiry moves from 300 to 305, no command is issued, and the stored target
  is now \<open>ACCEPT\<close>, not \<open>DROP\<close>: the next rebuild would append an accept rule for the host.
\<close>

theorem keepAlive_replaces_target:
  "add all_succeed ''8.8.8.8'' (Some ''DROP'') fresh =
     (Inr True,
      fresh\<lparr>hostStorage := \<lparr>entries = [(''8.8.8.8'', ''DROP'', Some 300)],
                               cache_stdTTL = 300, checkperiod = 30\<rparr>,
            execLog := [''/usr/sbin/iptables -A INPUT -s 8.8.8.8 -j DROP'']\<rparr>) \<and>
   keepAlive all_succeed ''8.8.8.8''
     (advance 5 (snd (add all_succeed ''8.8.8.8'' (Some ''DROP'') fresh))) =
     (Inr (),
      fresh\<lparr>hostStorage := \<lparr>entries = [(''8.8.8.8'', ''ACCEPT'', Some 305)],
                               cache_stdTTL = 300, checkperiod = 30\<rparr>,
            now := 5,
            execLog := [''/usr/sbin/iptables -A INPUT -s 8.8.8.8 -j DROP'']\<rparr>) \<and>
   host_appends (snd (keepAlive all_succeed ''8.8.8.8''
     (advance 5 (snd (add all_succeed ''8.8.8.8'' (Some ''DROP'') fresh))))) =
     [''/usr/sbin/iptables -A INPUT -s 8.8.8.8 -j ACCEPT'']"
  by (simp add: keepAlive_def add_eq fresh_def eval_defs)

section \<open>Expiry\<close>

text \<open>
  An entry set at time \<open>t\<close> in a store with a finite TTL is no longer included once the
  TTL has elapsed. The listener for \<open>expired\<close> calls \<open>delete\<close>, whose first step is the
  presence check: for a key that is not included it returns at once, so the listener
  changes nothing. A sweep therefore issues no command and the controller emits nothing.
\<close>

lemma cache_expires:
  "0 < cache_stdTTL c \<Longrightarrow> t + cache_stdTTL c < t' \<Longrightarrow>
     \<not> cache_includes t' (cache_set t c k v) k"
  by (simp add: cache_includes_def cache_set_lookup entry_expired_def)

lemma expired_listener_noop:
  "\<not> cache_includes (now s) (hostStorage s) key \<Longrightarrow>
     hostStorage_on env (Expired_event key) s = s"
  by (simp add: delete_def)

lemma sweep_keys_nothing:
  "execLog (sweep_keys env ks s) = execLog s \<and> emitted (sweep_keys env ks s) = emitted s \<and>
   now (sweep_keys env ks s) = now s \<and>
   entries (hostStorage (sweep_keys env ks s)) =
     filter (\<lambda>p. fst p \<notin> set ks) (entries (hostStorage s))"
proof (induction ks arbitrary: s)
  case Nil
  show ?case by simp
next
  case (Cons k ks)
  have "delete env k (s\<lparr>hostStorage := cache_del (hostStorage s) k\<rparr>) =
      (Inr False, s\<lparr>hostStorage := cache_del (hostStorage s) k\<rparr>)"
    by (simp add: delete_def cache_not_includes_del)
  then show ?case
    by (simp add: Cons.IH) (simp add: cache_del_def conj_commute)
qed

lemma sweep_issues_nothing:
  "execLog (sweep env s) = execLog s \<and> emitted (sweep env s) = emitted s"
  by (simp add: sweep_def sweep_keys_nothing)

text \<open>
  Claim C2 asks that, once the TTL of a host entry has elapsed, the entry be no longer
  included and that within one sweep period the controller emit \<open>expired\<close> for the key
  and rebuild the chain. The run: the default TTL of 300 and sweep period of 30,
  \<open>add('8.8.8.8', 'DROP')\<close> at time 0, the sweep at time 330. At time 301 the entry is no
  longer included. The sweep removes it from the store, but the controller has issued no
  flush and no append (the log still holds the one append of \<open>add\<close>, so the rule stays in
  the live chain) and has emitted nothing.
\<close>

theorem expiry_sweep_no_rebuild:
  "fst (add all_succeed ''8.8.8.8'' (Some ''DROP'') fresh) = Inr True \<and>
   \<not> cache_includes 301 (hostStorage (snd (add all_succeed ''8.8.8.8'' (Some ''DROP'') fresh)))
       ''8.8.8.8'' \<and>
   sweep all_succeed (advance 330 (snd (add all_succeed ''8.8.8.8'' (Some ''DROP'') fresh))) =
     fresh\<lparr>now := 330, execLog := [''/usr/sbin/iptables -A INPUT -s 8.8.8.8 -j DROP'']\<rparr>"
  by (simp add: sweep_def delete_def add_eq fresh_def eval_defs)

end
